theory Spec2Isabelle
  imports Main "HOL-Library.Word" "HOL-Library.Char_ord" "HOL-Library.List_Lexorder"
begin

section \<open>Paths\<close>

text \<open>
  Paths and file names are Go strings. The functions of \<^verbatim>\<open>path/filepath\<close> that the
  manifest code calls are written out for a slash-separated system (no volume names):
  \<^verbatim>\<open>Clean\<close>, \<^verbatim>\<open>Join\<close>, \<^verbatim>\<open>Base\<close>, \<^verbatim>\<open>Dir\<close>, \<^verbatim>\<open>Ext\<close> and \<^verbatim>\<open>Rel\<close>, all purely lexical.
\<close>

type_synonym path = string
type_synonym bytes = string

definition is_sep :: "char \<Rightarrow> bool" where
  "is_sep c = (c = CHR ''/'')"

fun split_slash :: "string \<Rightarrow> string list" where
  "split_slash [] = [[]]"
| "split_slash (c # cs) =
     (if is_sep c then [] # split_slash cs
      else (case split_slash cs of
              [] \<Rightarrow> [[c]]
            | w # ws \<Rightarrow> (c # w) # ws))"

fun join_slash :: "string list \<Rightarrow> string" where
  "join_slash [] = []"
| "join_slash [x] = x"
| "join_slash (x # y # zs) = x @ ''/'' @ join_slash (y # zs)"

text \<open>One element of \<^verbatim>\<open>Clean\<close>: the stack holds the kept elements, last one first.\<close>

definition clean_step :: "bool \<Rightarrow> string list \<Rightarrow> string \<Rightarrow> string list" where
  "clean_step rooted stk c =
     (if c = [] \<or> c = ''.'' then stk
      else if c = ''..'' then
        (case stk of
           [] \<Rightarrow> (if rooted then [] else [''..''])
         | t # ts \<Rightarrow> (if t = ''..'' then c # stk else ts))
      else c # stk)"

definition Clean :: "path \<Rightarrow> path" where
  "Clean p =
     (let rooted = (case p of [] \<Rightarrow> False | c # _ \<Rightarrow> is_sep c);
          stk = rev (foldl (clean_step rooted) [] (split_slash p))
      in if rooted then CHR ''/'' # join_slash stk
         else if stk = [] then ''.''
         else join_slash stk)"

text \<open>\<^verbatim>\<open>filepath.Join\<close> of two elements: empty elements are ignored, the result is cleaned.\<close>

definition Join :: "path \<Rightarrow> path \<Rightarrow> path" where
  "Join a b =
     (if a = [] \<and> b = [] then []
      else if a = [] then Clean b
      else if b = [] then Clean a
      else Clean (a @ ''/'' @ b))"

definition Base :: "path \<Rightarrow> string" where
  "Base p =
     (if p = [] then ''.''
      else (let q = dropWhile is_sep (rev p);
                b = rev (takeWhile (\<lambda>c. \<not> is_sep c) q)
            in if b = [] then ''/'' else b))"

definition Dir :: "path \<Rightarrow> path" where
  "Dir p = Clean (rev (dropWhile (\<lambda>c. \<not> is_sep c) (rev p)))"

text \<open>
  \<^verbatim>\<open>filepath.Ext\<close> scans from the end of the path back to the last separator and returns
  the suffix that starts at the first dot it meets.
\<close>

fun ext_scan :: "string \<Rightarrow> string \<Rightarrow> string" where
  "ext_scan [] acc = []"
| "ext_scan (c # cs) acc =
     (if is_sep c then []
      else if c = CHR ''.'' then c # acc
      else ext_scan cs (c # acc))"

definition Ext :: "path \<Rightarrow> string" where
  "Ext p = ext_scan (rev p) []"

text \<open>
  \<^verbatim>\<open>fileutil.SetExt(path, ext)\<close> of go-stockutil with no old extensions given: the
  extension of the path is cut off and \<open>ext\<close> is put in its place.
\<close>

definition SetExt :: "path \<Rightarrow> string \<Rightarrow> path" where
  "SetExt p ext = take (length p - length (Ext p)) p @ ext"

fun drop_common :: "string list \<Rightarrow> string list \<Rightarrow> string list \<times> string list" where
  "drop_common (b # bs) (t # ts) = (if b = t then drop_common bs ts else (b # bs, t # ts))"
| "drop_common bs ts = (bs, ts)"

text \<open>
  The elements that \<^verbatim>\<open>Rel\<close> compares, of a cleaned path: a rooted path starts with an
  empty element, and the root itself is that element alone.
\<close>

definition elems :: "path \<Rightarrow> string list" where
  "elems p = (if p = [] then [] else if p = ''/'' then [[]] else split_slash p)"

text \<open>\<^verbatim>\<open>filepath.Rel\<close>; \<open>None\<close> is its error.\<close>

definition Rel :: "path \<Rightarrow> path \<Rightarrow> path option" where
  "Rel basepath targpath =
     (let base = Clean basepath; targ = Clean targpath in
      if targ = base then Some ''.''
      else
        (let base = (if base = ''.'' then [] else base);
             baseSlashed = (case base of [] \<Rightarrow> False | c # _ \<Rightarrow> is_sep c);
             targSlashed = (case targ of [] \<Rightarrow> False | c # _ \<Rightarrow> is_sep c)
         in if baseSlashed \<noteq> targSlashed then None
            else (case drop_common (elems base) (elems targ) of
                    (b, t) \<Rightarrow>
                      (case b of
                         [] \<Rightarrow> Some (join_slash t)
                       | b0 # _ \<Rightarrow>
                           (if b0 = ''..'' then None
                            else Some (join_slash (replicate (length b) ''..'' @ t)))))))"

section \<open>Data model\<close>

record ManifestFile =
  Name :: string
  Size :: "64 word"
  SHA256 :: string
  MIME :: string
  Archive :: bool
  skipValidate :: bool

record Manifest =
  Assets :: "ManifestFile list"
  Modules :: "ManifestFile list"
  GlobalImports :: "string list"
  GeneratedAt :: "nat option"
  TotalSize :: "64 word"
  FileCount :: "64 word"
  rootDir :: string

text \<open>\<^verbatim>\<open>new(Manifest)\<close>: every field has its zero value.\<close>

definition new_Manifest :: Manifest where
  "new_Manifest =
     \<lparr>Assets = [], Modules = [], GlobalImports = [], GeneratedAt = None,
      TotalSize = 0, FileCount = 0, rootDir = []\<rparr>"

record FileInfo =
  IsDir :: bool
  info_Size :: "64 word"

record ModuleSpec =
  Global :: bool

datatype ArchiveType = NoArchive | Zip | TarGz

datatype error =
    NoSuchFile
  | InvalidLocalFile
  | MalformedChecksum
  | StatError path
  | ChecksumError path
  | InvalidModuleSpec path
  | RetrieveError string
  | WriteError string
  | ExtractError string
  | InvalidFile path error
  | BundleInvalidFile string error
  | BundleFileError string
  | BundleReadError string
  | CreateError path
  | EncodeError
  | RemoveError path
  | WalkError path

section \<open>The file system and the outside world\<close>

datatype fsobj = File bytes | Directory

type_synonym filesystem = "path \<Rightarrow> fsobj option"

text \<open>
  What the manifest code takes from outside this file. The constants
  \<^verbatim>\<open>ModuleSpecFilename\<close> and \<^verbatim>\<open>ManifestFilename\<close>, the predicates
  \<^verbatim>\<open>IsValidModuleFile\<close> and \<^verbatim>\<open>getArchiveType\<close>, the parser \<^verbatim>\<open>LoadModuleSpec\<close>, and
  \<^verbatim>\<open>joinpath\<close> and \<^verbatim>\<open>fetch\<close> are declared elsewhere in the package; the checksum, the
  MIME guess and the YAML encoder are library calls. They are parameters here.
  \<open>sha256\<close> is the hex string of the SHA-256 checksum of the bytes. \<open>unpack\<close> decodes an
  archive into its members (\<open>None\<close> when it cannot be read), \<open>unwritable\<close> tells the paths
  on which creating or writing a file fails.
\<close>

record env =
  sha256 :: "bytes \<Rightarrow> string"
  ModuleSpecFilename :: string
  ManifestFilename :: string
  IsValidModuleFile :: "filesystem \<Rightarrow> path \<Rightarrow> bool"
  LoadModuleSpec :: "bytes \<Rightarrow> ModuleSpec option"
  GetMimeType :: "filesystem \<Rightarrow> path \<Rightarrow> string"
  getArchiveType :: "filesystem \<Rightarrow> path \<Rightarrow> ArchiveType"
  joinpath :: "string \<Rightarrow> string \<Rightarrow> string"
  fetch :: "string \<Rightarrow> bytes option"
  unpack :: "bytes \<Rightarrow> (string \<times> bytes) list option"
  unwritable :: "path \<Rightarrow> bool"
  Encode :: "path \<Rightarrow> Manifest \<Rightarrow> error option"

text \<open>
  The calls that reach outside the process are recorded in order, so that a statement can
  say which of them a run made.
\<close>

datatype event =
    Retrieve string
  | Write path
  | Extract path
  | Remove path

record world =
  disk :: filesystem
  trace :: "event list"

definition os_Stat :: "filesystem \<Rightarrow> path \<Rightarrow> error + FileInfo" where
  "os_Stat fs p =
     (case fs p of
        None \<Rightarrow> Inl (StatError p)
      | Some Directory \<Rightarrow> Inr \<lparr>IsDir = True, info_Size = 0\<rparr>
      | Some (File b) \<Rightarrow> Inr \<lparr>IsDir = False, info_Size = of_nat (length b)\<rparr>)"

text \<open>\<^verbatim>\<open>fileutil.FileExists\<close>: the path exists and is not a directory.\<close>

definition FileExists :: "filesystem \<Rightarrow> path \<Rightarrow> bool" where
  "FileExists fs p = (case fs p of Some (File b) \<Rightarrow> True | _ \<Rightarrow> False)"

text \<open>\<^verbatim>\<open>fileutil.ChecksumFile(path, `sha256`)\<close> followed by \<^verbatim>\<open>hex.EncodeToString\<close>.\<close>

definition ChecksumFile :: "env \<Rightarrow> filesystem \<Rightarrow> path \<Rightarrow> string option" where
  "ChecksumFile E fs p = (case fs p of Some (File b) \<Rightarrow> Some (sha256 E b) | _ \<Rightarrow> None)"

text \<open>The regular file at a path, if there is one.\<close>

definition file_at :: "filesystem \<Rightarrow> path \<Rightarrow> bytes option" where
  "file_at fs p = (case fs p of Some (File b) \<Rightarrow> Some b | _ \<Rightarrow> None)"

text \<open>
  The directories above a cleaned path, the outermost first: \<open>dest\<close> and \<open>dest/sub\<close> for
  \<open>dest/sub/a.txt\<close>.
\<close>

fun parents_scan :: "string \<Rightarrow> string \<Rightarrow> path list" where
  "parents_scan acc [] = []"
| "parents_scan acc (c # cs) =
     (if is_sep c \<and> acc \<noteq> [] then acc # parents_scan (acc @ [c]) cs
      else parents_scan (acc @ [c]) cs)"

definition parent_dirs :: "path \<Rightarrow> path list" where
  "parent_dirs p = parents_scan [] p"

text \<open>\<^verbatim>\<open>os.MkdirAll\<close> on paths none of which is a regular file: the missing ones appear.\<close>

definition make_dirs :: "path list \<Rightarrow> filesystem \<Rightarrow> filesystem" where
  "make_dirs qs fs =
     (\<lambda>q. if q \<in> set qs then (case fs q of None \<Rightarrow> Some Directory | Some ob \<Rightarrow> Some ob)
          else fs q)"

text \<open>
  Creating a file with its parent directories. It fails when a directory above it is a
  regular file or when the path itself is a directory, and then changes nothing.
\<close>

definition put_file :: "path \<Rightarrow> bytes \<Rightarrow> filesystem \<Rightarrow> filesystem option" where
  "put_file p b fs =
     (if list_ex (\<lambda>q. file_at fs q \<noteq> None) (parent_dirs p) then None
      else if fs p = Some Directory then None
      else Some ((make_dirs (parent_dirs p) fs)(p \<mapsto> File b)))"

text \<open>
  \<^verbatim>\<open>fileutil.WriteFile(rc, dest)\<close>: the parent directories of \<open>dest\<close> are created as needed
  and the bytes read from \<open>rc\<close> become the file at \<open>dest\<close>.
\<close>

definition WriteFile_to :: "env \<Rightarrow> bytes \<Rightarrow> path \<Rightarrow> world \<Rightarrow> error option \<times> world" where
  "WriteFile_to E rc dest w =
     (if unwritable E dest then (Some (WriteError dest), w)
      else (case put_file dest rc (disk w) of
              None \<Rightarrow> (Some (WriteError dest), w)
            | Some fs \<Rightarrow> (None, w\<lparr>disk := fs, trace := trace w @ [Write dest]\<rparr>)))"

text \<open>\<^verbatim>\<open>os.Remove\<close>: an error when there is nothing at the path.\<close>

definition os_Remove :: "path \<Rightarrow> world \<Rightarrow> error option \<times> world" where
  "os_Remove p w =
     (let w' = w\<lparr>trace := trace w @ [Remove p]\<rparr> in
      case disk w p of
        None \<Rightarrow> (Some (RemoveError p), w')
      | Some _ \<Rightarrow> (None, w'\<lparr>disk := (disk w)(p := None)\<rparr>))"

section \<open>ManifestFile\<close>

definition validate :: "env \<Rightarrow> filesystem \<Rightarrow> string \<Rightarrow> ManifestFile \<Rightarrow> error option" where
  "validate E fs root f =
     (let path = Join root (Name f) in
      if FileExists fs path then
        (case ChecksumFile E fs path of
           Some cksum \<Rightarrow> (if cksum = SHA256 f then None else Some InvalidLocalFile)
         | None \<Rightarrow> Some MalformedChecksum)
      else Some NoSuchFile)"

definition ManifestFile_fetch :: "env \<Rightarrow> string \<Rightarrow> ManifestFile \<Rightarrow> world \<Rightarrow> bytes option \<times> world" where
  "ManifestFile_fetch E root f w =
     (fetch E (joinpath E root (Name f)), w\<lparr>trace := trace w @ [Retrieve (Name f)]\<rparr>)"

section \<open>Manifest\<close>

definition Files :: "Manifest \<Rightarrow> ManifestFile list" where
  "Files m = Assets m @ Modules m"

text \<open>
  The entries are heap objects in the source (\<^verbatim>\<open>[]*ManifestFile\<close>), and \<^verbatim>\<open>Fetch\<close> writes
  \<^verbatim>\<open>skipValidate\<close> through the pointer. An entry is known here by its position in
  \<open>Files\<close>; \<open>set_Files\<close> puts an updated list of entries back into the two collections.
\<close>

definition set_Files :: "Manifest \<Rightarrow> ManifestFile list \<Rightarrow> Manifest" where
  "set_Files m fl =
     m\<lparr>Assets := take (length (Assets m)) fl, Modules := drop (length (Assets m)) fl\<rparr>"

fun Clean_loop :: "string \<Rightarrow> ManifestFile list \<Rightarrow> world \<Rightarrow> world" where
  "Clean_loop destdir [] w = w"
| "Clean_loop destdir (module # rest) w =
     Clean_loop destdir rest (snd (os_Remove (Join destdir (Name module)) w))"

text \<open>
  \<^verbatim>\<open>Clean\<close> (named \<open>Clean_manifest\<close> beside \<^verbatim>\<open>filepath.Clean\<close>). A method with a pointer
  receiver returns, with its error, the manifest and the world as they are after the call.
\<close>

definition Clean_manifest ::
  "Manifest \<Rightarrow> string \<Rightarrow> world \<Rightarrow> error option \<times> Manifest \<times> world" where
  "Clean_manifest m destdir w = (None, m, Clean_loop destdir (Modules m) w)"

definition AddGlobalImportPath :: "string \<Rightarrow> Manifest \<Rightarrow> Manifest" where
  "AddGlobalImportPath p m =
     (if p \<in> set (GlobalImports m) then m
      else m\<lparr>GlobalImports := GlobalImports m @ [p]\<rparr>)"

definition rel :: "Manifest \<Rightarrow> path \<Rightarrow> path" where
  "rel m p =
     (if rootDir m \<noteq> [] then
        (case Rel (rootDir m) p of Some r \<Rightarrow> r | None \<Rightarrow> p)
      else p)"

definition ShouldAppend :: "env \<Rightarrow> Manifest \<Rightarrow> path \<Rightarrow> bool" where
  "ShouldAppend E m p =
     (let r = rel m p; base = Base r in
      if r = ManifestFilename E then False
      else if base = ''qmldir'' \<or> base = ModuleSpecFilename E \<or> base = ''Hydra.qml'' then False
      else True)"

text \<open>Lines 173 to 190 of \<^verbatim>\<open>Append\<close>: the entry is built and put into its collection.\<close>

definition add_entry :: "env \<Rightarrow> filesystem \<Rightarrow> path \<Rightarrow> FileInfo \<Rightarrow> string \<Rightarrow> string \<Rightarrow> Manifest \<Rightarrow> Manifest" where
  "add_entry E fs p info relPath cksum m =
     (let entry = \<lparr>Name = relPath, Size = info_Size info, SHA256 = cksum,
                   MIME = GetMimeType E fs p,
                   Archive = (getArchiveType E fs p \<noteq> NoArchive),
                   skipValidate = False\<rparr>;
          m1 = (if IsValidModuleFile E fs p then m\<lparr>Modules := Modules m @ [entry]\<rparr>
                else m\<lparr>Assets := Assets m @ [entry]\<rparr>)
      in m1\<lparr>FileCount := FileCount m1 + 1, TotalSize := TotalSize m1 + info_Size info\<rparr>)"

definition Append :: "env \<Rightarrow> filesystem \<Rightarrow> path \<Rightarrow> FileInfo option \<Rightarrow> Manifest \<Rightarrow> error option \<times> Manifest" where
  "Append E fs p fi m =
     (case (case fi of Some i \<Rightarrow> Inr i | None \<Rightarrow> os_Stat fs p) of
        Inl err \<Rightarrow> (Some err, m)
      | Inr info \<Rightarrow>
          (if \<not> IsDir info then
             (case ChecksumFile E fs p of
                Some cksum \<Rightarrow>
                  (let relPath = rel m p in
                   if Base p = ModuleSpecFilename E then
                     (case (case fs p of Some (File b) \<Rightarrow> LoadModuleSpec E b | _ \<Rightarrow> None) of
                        Some spec \<Rightarrow>
                          (None,
                           add_entry E fs p info relPath cksum
                             (if Global spec then AddGlobalImportPath (Dir p) m else m))
                      | None \<Rightarrow> (Some (InvalidModuleSpec p), m))
                   else if \<not> ShouldAppend E m p then (None, m)
                   else (None, add_entry E fs p info relPath cksum m))
              | None \<Rightarrow> (Some (ChecksumError p), m))
           else (None, m)))"

subsection \<open>Fetch\<close>

text \<open>The first loop of \<^verbatim>\<open>Fetch\<close>: the entries that do not validate, by position.\<close>

definition toFetch :: "env \<Rightarrow> filesystem \<Rightarrow> string \<Rightarrow> ManifestFile list \<Rightarrow> nat list" where
  "toFetch E fs destdir fl = filter (\<lambda>i. validate E fs destdir (fl ! i) \<noteq> None) [0..<length fl]"

text \<open>
  The members of an archive are written below the destination directory one after the
  other; the first that cannot be written ends the extraction.
\<close>

fun write_members ::
  "string \<Rightarrow> (string \<times> bytes) list \<Rightarrow> filesystem \<Rightarrow> bool \<times> filesystem" where
  "write_members destdir [] fs = (True, fs)"
| "write_members destdir ((n, c) # rest) fs =
     (case put_file (Join destdir n) c fs of
        None \<Rightarrow> (False, fs)
      | Some fs' \<Rightarrow> write_members destdir rest fs')"

text \<open>
  Modelled from the spec: \<^verbatim>\<open>extract(manifest, archive, destdir)\<close> is declared in a file of
  the package that is not part of the sources at hand. The spec says that the retrieved
  file is expanded into the destination directory, its contents becoming part of the tree.
\<close>

definition extract_archive :: "env \<Rightarrow> path \<Rightarrow> string \<Rightarrow> world \<Rightarrow> error option \<times> world" where
  "extract_archive E archive destdir w =
     (let w' = w\<lparr>trace := trace w @ [Extract archive]\<rparr> in
      case disk w archive of
        Some (File b) \<Rightarrow>
          (case unpack E b of
             Some members \<Rightarrow>
               (case write_members destdir members (disk w) of
                  (True, fs) \<Rightarrow> (None, w'\<lparr>disk := fs\<rparr>)
                | (False, fs) \<Rightarrow> (Some (ExtractError archive), w'\<lparr>disk := fs\<rparr>))
           | None \<Rightarrow> (Some (ExtractError archive), w'))
      | _ \<Rightarrow> (Some (ExtractError archive), w'))"

text \<open>
  The paths at which members are written when \<^verbatim>\<open>Fetch\<close> retrieves the entry \<open>f\<close> and
  extracts it: none unless \<open>f\<close> is an archive that the backend returns and that unpacks.
\<close>

definition extracted_paths :: "env \<Rightarrow> string \<Rightarrow> string \<Rightarrow> ManifestFile \<Rightarrow> path list" where
  "extracted_paths E srcroot destdir f =
     (if Archive f then
        (case fetch E (joinpath E srcroot (Name f)) of
           Some rc \<Rightarrow>
             (case unpack E rc of
                Some members \<Rightarrow> map (\<lambda>(n, c). Join destdir n) members
              | None \<Rightarrow> [])
         | None \<Rightarrow> [])
      else [])"

fun fetch_loop ::
  "env \<Rightarrow> string \<Rightarrow> string \<Rightarrow> nat list \<Rightarrow> ManifestFile list \<Rightarrow> world
     \<Rightarrow> error option \<times> ManifestFile list \<times> world" where
  "fetch_loop E srcroot destdir [] fl w = (None, fl, w)"
| "fetch_loop E srcroot destdir (i # rest) fl w =
     (let file = fl ! i; dest = Join destdir (Name file) in
      case ManifestFile_fetch E srcroot file w of
        (Some rc, w1) \<Rightarrow>
          (case WriteFile_to E rc dest w1 of
             (None, w2) \<Rightarrow>
               (if Archive file then
                  (case extract_archive E dest destdir w2 of
                     (None, w3) \<Rightarrow>
                       fetch_loop E srcroot destdir rest
                         (fl[i := file\<lparr>skipValidate := True\<rparr>]) w3
                   | (Some err, w3) \<Rightarrow> (Some (ExtractError (Name file)), fl, w3))
                else fetch_loop E srcroot destdir rest fl w2)
           | (Some err, w2) \<Rightarrow> (Some (WriteError (Name file)), fl, w2))
      | (None, w1) \<Rightarrow> (Some (RetrieveError (Name file)), fl, w1))"

text \<open>The last loop of \<^verbatim>\<open>Fetch\<close>, over \<^verbatim>\<open>self.Files()\<close>.\<close>

fun validate_pass :: "env \<Rightarrow> string \<Rightarrow> ManifestFile list \<Rightarrow> world \<Rightarrow> error option \<times> world" where
  "validate_pass E destdir [] w = (None, w)"
| "validate_pass E destdir (file # rest) w =
     (if skipValidate file then validate_pass E destdir rest w
      else (case validate E (disk w) destdir file of
              Some err \<Rightarrow>
                (Some (InvalidFile (Join destdir (Name file)) err),
                 snd (os_Remove (Join destdir (Name file)) w))
            | None \<Rightarrow> validate_pass E destdir rest w))"

text \<open>
  An entry at which the last loop stops: it is not skipped and does not validate.
\<close>

definition offending :: "env \<Rightarrow> filesystem \<Rightarrow> string \<Rightarrow> ManifestFile \<Rightarrow> bool" where
  "offending E fs destdir f = (\<not> skipValidate f \<and> validate E fs destdir f \<noteq> None)"

text \<open>
  \<^verbatim>\<open>Fetch\<close> returns its error; the manifest (whose entries it may have marked) and the
  world after the call are returned with it.
\<close>

definition Fetch ::
  "env \<Rightarrow> Manifest \<Rightarrow> string \<Rightarrow> string \<Rightarrow> world \<Rightarrow> error option \<times> Manifest \<times> world" where
  "Fetch E m srcroot destdir w =
     (case fetch_loop E srcroot destdir (toFetch E (disk w) destdir (Files m)) (Files m) w of
        (Some err, fl, w1) \<Rightarrow> (Some err, set_Files m fl, w1)
      | (None, fl, w1) \<Rightarrow>
          (case validate_pass E destdir fl w1 of
             (err, w2) \<Rightarrow> (err, set_Files m fl, w2)))"

subsection \<open>Bundle\<close>

definition isAutogenerated :: "Manifest \<Rightarrow> ManifestFile \<Rightarrow> bool" where
  "isAutogenerated m file =
     (if Ext (Name file) = ''.qml'' then
        (let yamlFile = SetExt (Name file) ''.yaml'' in
         list_ex (\<lambda>module. Name module = yamlFile) (Modules m))
      else False)"

text \<open>
  The tar stream is the list of the entries written to it: the name put into the header
  and the bytes copied after it. Writing into the stream is taken to succeed.
\<close>

type_synonym tar_entry = "string \<times> bytes"

fun Bundle_loop ::
  "env \<Rightarrow> Manifest \<Rightarrow> filesystem \<Rightarrow> ManifestFile list \<Rightarrow> tar_entry list
     \<Rightarrow> error option \<times> tar_entry list" where
  "Bundle_loop E m fs [] tw = (None, tw)"
| "Bundle_loop E m fs (file # rest) tw =
     (if Archive file then Bundle_loop E m fs rest tw
      else if isAutogenerated m file then Bundle_loop E m fs rest tw
      else
        (case validate E fs (rootDir m) file of
           Some err \<Rightarrow> (Some (BundleInvalidFile (Name file) err), tw)
         | None \<Rightarrow>
             (case os_Stat fs (Join (rootDir m) (Name file)) of
                Inr stat \<Rightarrow>
                  (case fs (Join (rootDir m) (Name file)) of
                     Some (File b) \<Rightarrow> Bundle_loop E m fs rest (tw @ [(Name file, b)])
                   | _ \<Rightarrow> (Some (BundleReadError (Name file)), tw @ [(Name file, [])]))
              | Inl err \<Rightarrow> (Some (BundleFileError (Name file)), tw))))"

definition Bundle :: "env \<Rightarrow> Manifest \<Rightarrow> path \<Rightarrow> filesystem \<Rightarrow> error option \<times> tar_entry list" where
  "Bundle E m outfile fs =
     (if unwritable E outfile then (Some (CreateError outfile), [])
      else Bundle_loop E m fs (Files m) [])"

subsection \<open>WriteFile\<close>

text \<open>
  A call either returns to its caller or ends the process: \<^verbatim>\<open>log.Fatal\<close> of go-stockutil
  logs its argument and calls \<^verbatim>\<open>os.Exit(1)\<close>.
\<close>

datatype 'a outcome = Returns 'a | Exits error

definition WriteFile :: "env \<Rightarrow> Manifest \<Rightarrow> string \<Rightarrow> error option outcome" where
  "WriteFile E m manifestFile =
     (let manifestFile = (if manifestFile = [] then ManifestFilename E else manifestFile) in
      if manifestFile = ''-'' then Returns (Encode E manifestFile m)
      else if unwritable E manifestFile then Exits (CreateError manifestFile)
      else Returns (Encode E manifestFile m))"

subsection \<open>CreateManifest\<close>

text \<open>
  The source tree. A directory lists its entries in the order in which \<^verbatim>\<open>filepath.Walk\<close>
  reads them, which is the lexical order of their names.
\<close>

datatype tree = TFile bytes | TDir "(string \<times> tree) list"

fun tree_disk :: "path \<Rightarrow> tree \<Rightarrow> (path \<times> fsobj) list" where
  "tree_disk p (TFile b) = [(p, File b)]"
| "tree_disk p (TDir es) =
     (p, Directory) # concat (map (\<lambda>e. tree_disk (Join p (fst e)) (snd e)) es)"

definition disk_of :: "path \<Rightarrow> tree \<Rightarrow> filesystem" where
  "disk_of p t = map_of (tree_disk p t)"

definition Lstat_info :: "fsobj \<Rightarrow> FileInfo" where
  "Lstat_info ob =
     (case ob of
        Directory \<Rightarrow> \<lparr>IsDir = True, info_Size = 0\<rparr>
      | File b \<Rightarrow> \<lparr>IsDir = False, info_Size = of_nat (length b)\<rparr>)"

text \<open>
  \<^verbatim>\<open>filepath.Walk\<close> calls its function on the root and then on every path below it, a
  directory before its entries, and stops at the first error the function returns.
\<close>

definition walk :: "path \<Rightarrow> tree \<Rightarrow> (path \<times> FileInfo) list" where
  "walk p t = map (\<lambda>(q, ob). (q, Lstat_info ob)) (tree_disk p t)"

fun Walk_Append ::
  "env \<Rightarrow> filesystem \<Rightarrow> (path \<times> FileInfo) list \<Rightarrow> Manifest \<Rightarrow> error option \<times> Manifest" where
  "Walk_Append E fs [] m = (None, m)"
| "Walk_Append E fs ((p, info) # rest) m =
     (case Append E fs p (Some info) m of
        (None, m') \<Rightarrow> Walk_Append E fs rest m'
      | (Some err, m') \<Rightarrow> (Some err, m'))"

text \<open>
  \<open>root\<close> is the tree at \<open>srcdir\<close>, \<open>None\<close> when there is nothing there; \<open>now\<close> is the
  clock.
\<close>

definition CreateManifest :: "env \<Rightarrow> string \<Rightarrow> tree option \<Rightarrow> nat \<Rightarrow> error + Manifest" where
  "CreateManifest E srcdir root now =
     (let manifest = new_Manifest\<lparr>rootDir := srcdir\<rparr> in
      case root of
        None \<Rightarrow> Inl (WalkError srcdir)
      | Some t \<Rightarrow>
          (case Walk_Append E (disk_of srcdir t) (walk srcdir t) manifest of
             (None, m) \<Rightarrow>
               Inr (m\<lparr>GeneratedAt := Some now,
                      GlobalImports :=
                        map (\<lambda>gi. case Rel srcdir gi of Some r \<Rightarrow> r | None \<Rightarrow> [])
                          (sort (GlobalImports m))\<rparr>)
           | (Some err, m) \<Rightarrow> Inl err))"

subsection \<open>The running aggregates\<close>

text \<open>
  What the spec asks of \<open>FileCount\<close> and \<open>TotalSize\<close>. Both fields are \<^verbatim>\<open>int64\<close>; the count
  and the sum are taken in the same 64-bit arithmetic.
\<close>

definition aggregates_ok :: "Manifest \<Rightarrow> bool" where
  "aggregates_ok m =
     (FileCount m = of_nat (length (Assets m) + length (Modules m))
      \<and> TotalSize m = sum_list (map Size (Assets m @ Modules m)))"

section \<open>Example inputs\<close>

definition clean_manifest_ex :: Manifest where
  "clean_manifest_ex = new_Manifest
     \<lparr>Assets := [\<lparr>Name = ''a.txt'', Size = 1, SHA256 = ''x'', MIME = [],
                   Archive = False, skipValidate = False\<rparr>],
      Modules := [\<lparr>Name = ''m.yaml'', Size = 1, SHA256 = ''y'', MIME = [],
                    Archive = False, skipValidate = False\<rparr>,
                  \<lparr>Name = ''gone.yaml'', Size = 1, SHA256 = ''z'', MIME = [],
                    Archive = False, skipValidate = False\<rparr>]\<rparr>"

definition clean_world_ex :: world where
  "clean_world_ex =
     \<lparr>disk = [''dest/a.txt'' \<mapsto> File ''x'', ''dest/m.yaml'' \<mapsto> File ''y''], trace = []\<rparr>"

text \<open>
  The scenario of the spec: a directory \<^verbatim>\<open>app\<close> with the file \<^verbatim>\<open>a.txt\<close> (11 bytes) and the
  directory \<^verbatim>\<open>mods\<close>, which holds a module spec that declares itself global. The names of
  the module spec file and of the manifest file are those of the package
  (\<^verbatim>\<open>module.yaml\<close>, \<^verbatim>\<open>manifest.yaml\<close>); the checksum \<open>h\<close> and the module predicate \<open>isMod\<close>
  are left open.
\<close>

definition scenario_env :: "(bytes \<Rightarrow> string) \<Rightarrow> (filesystem \<Rightarrow> path \<Rightarrow> bool) \<Rightarrow> env" where
  "scenario_env h isMod =
     \<lparr>sha256 = h, ModuleSpecFilename = ''module.yaml'', ManifestFilename = ''manifest.yaml'',
      IsValidModuleFile = isMod,
      LoadModuleSpec = (\<lambda>b. if b = ''global: true'' then Some \<lparr>Global = True\<rparr>
                             else if b = ''global: false'' then Some \<lparr>Global = False\<rparr>
                             else None),
      GetMimeType = (\<lambda>fs p. ''text/plain''),
      getArchiveType = (\<lambda>fs p. if Ext p = ''.zip'' then Zip else NoArchive),
      joinpath = Join, fetch = (\<lambda>u. None), unpack = (\<lambda>b. None),
      unwritable = (\<lambda>p. False), Encode = (\<lambda>p m. None)\<rparr>"

definition scenario_tree :: tree where
  "scenario_tree =
     TDir [(''a.txt'', TFile ''hello world''),
           (''mods'', TDir [(''module.yaml'', TFile ''global: true'')])]"

text \<open>
  Inputs for \<^verbatim>\<open>Fetch\<close>: an archive \<^verbatim>\<open>pkg.zip\<close> and a text file \<^verbatim>\<open>a.txt\<close>. In the examples the
  bytes of a file stand for their own checksum; \<open>src\<close> is what the retrieval backend
  returns for a location and \<open>u\<close> how an archive unpacks.
\<close>

definition fetch_env ::
  "(string \<Rightarrow> bytes option) \<Rightarrow> (bytes \<Rightarrow> (string \<times> bytes) list option) \<Rightarrow> env" where
  "fetch_env src u = (scenario_env (\<lambda>b. b) (\<lambda>fs p. False))\<lparr>fetch := src, unpack := u\<rparr>"

definition pkg_entry :: ManifestFile where
  "pkg_entry = \<lparr>Name = ''pkg.zip'', Size = 4, SHA256 = ''zip1'', MIME = ''application/zip'',
                 Archive = True, skipValidate = False\<rparr>"

definition txt_entry :: ManifestFile where
  "txt_entry = \<lparr>Name = ''a.txt'', Size = 11, SHA256 = ''hello world'', MIME = ''text/plain'',
                 Archive = False, skipValidate = False\<rparr>"

definition pkg_manifest :: Manifest where
  "pkg_manifest = new_Manifest\<lparr>Assets := [pkg_entry, txt_entry], TotalSize := 15, FileCount := 2\<rparr>"

definition txt_manifest :: Manifest where
  "txt_manifest = new_Manifest\<lparr>Assets := [txt_entry], TotalSize := 11, FileCount := 1\<rparr>"

definition dest_with_txt :: world where
  "dest_with_txt =
     \<lparr>disk = [''dest'' \<mapsto> Directory, ''dest/a.txt'' \<mapsto> File ''hello world''], trace = []\<rparr>"

definition dest_empty :: world where
  "dest_empty = \<lparr>disk = Map.empty, trace = []\<rparr>"

text \<open>
  A backend with the right \<^verbatim>\<open>pkg.zip\<close>, which holds a member called \<^verbatim>\<open>a.txt\<close>; a backend with
  the right \<^verbatim>\<open>a.txt\<close> only; a destination that has \<^verbatim>\<open>pkg.zip\<close> and lacks \<^verbatim>\<open>a.txt\<close>.
\<close>

definition overwriting_env :: env where
  "overwriting_env = fetch_env (\<lambda>u. Some ''zip1'') (\<lambda>b. Some [(''a.txt'', ''overwritten'')])"

definition txt_source_env :: env where
  "txt_source_env =
     fetch_env (\<lambda>u. if u = ''src/a.txt'' then Some ''hello world'' else None) (\<lambda>b. None)"

definition dest_with_pkg :: world where
  "dest_with_pkg =
     \<lparr>disk = [''dest'' \<mapsto> Directory, ''dest/pkg.zip'' \<mapsto> File ''zip1''], trace = []\<rparr>"

text \<open>
  A backend with the right \<^verbatim>\<open>pkg.zip\<close>, which holds one member \<^verbatim>\<open>lib/x.txt\<close>, and a backend
  whose \<^verbatim>\<open>pkg.zip\<close> cannot be unpacked.
\<close>

definition pkg_source_env :: env where
  "pkg_source_env = fetch_env (\<lambda>u. Some ''zip1'') (\<lambda>b. Some [(''lib/x.txt'', ''x'')])"

definition broken_zip_env :: env where
  "broken_zip_env = fetch_env (\<lambda>u. Some ''zip1'') (\<lambda>b. None)"


section \<open>Properties\<close>

subsection \<open>Clean\<close>

lemma Clean_loop_trace:
  "trace (Clean_loop destdir ms w) = trace w @ map (\<lambda>f. Remove (Join destdir (Name f))) ms"
  by (induction ms arbitrary: w) (simp_all add: os_Remove_def Let_def split: option.splits)

lemma Clean_loop_frame:
  "p \<notin> (\<lambda>f. Join destdir (Name f)) ` set ms \<Longrightarrow> disk (Clean_loop destdir ms w) p = disk w p"
  by (induction ms arbitrary: w) (auto simp: os_Remove_def Let_def split: option.splits)

lemma Clean_loop_removed:
  "p \<in> (\<lambda>f. Join destdir (Name f)) ` set ms \<Longrightarrow> disk (Clean_loop destdir ms w) p = None"
proof (induction ms arbitrary: w)
  case Nil
  then show ?case by simp
next
  case (Cons f ms)
  show ?case
  proof (cases "p \<in> (\<lambda>f. Join destdir (Name f)) ` set ms")
    case True
    then show ?thesis using Cons.IH by simp
  next
    case False
    with Cons.prems have "p = Join destdir (Name f)" by auto
    with False show ?thesis
      by (simp add: Clean_loop_frame os_Remove_def Let_def split: option.splits)
  qed
qed

lemma Join_dest_ex:
  "Join ''dest'' ''a.txt'' = ''dest/a.txt''"
  "Join ''dest'' ''m.yaml'' = ''dest/m.yaml''"
  "Join ''dest'' ''gone.yaml'' = ''dest/gone.yaml''"
  by code_simp+

text \<open>
  C10. \<^verbatim>\<open>Clean\<close> always returns nil and leaves the manifest as it was. The removals it
  attempts are those of the destination files of the entries of \<open>Modules\<close>, one for each
  entry and in their order, whether the file is there or not; every other path of the
  destination, the files of the assets among them, is as before, and no destination file
  of a module is left.
\<close>

theorem Clean_touches_only_modules:
  assumes "Clean_manifest m destdir w = (err, m', w')"
  shows "err = None \<and> m' = m
    \<and> trace w' = trace w @ map (\<lambda>f. Remove (Join destdir (Name f))) (Modules m)
    \<and> (\<forall>p. p \<notin> (\<lambda>f. Join destdir (Name f)) ` set (Modules m) \<longrightarrow> disk w' p = disk w p)
    \<and> (\<forall>f \<in> set (Modules m). disk w' (Join destdir (Name f)) = None)"
  using assms
  by (auto simp: Clean_manifest_def Clean_loop_trace Clean_loop_frame Clean_loop_removed)

text \<open>
  An input for it: an asset \<^verbatim>\<open>a.txt\<close> and a module \<^verbatim>\<open>m.yaml\<close> present in \<^verbatim>\<open>dest\<close>, a
  module \<^verbatim>\<open>gone.yaml\<close> absent from it, so that the second removal fails.
\<close>

theorem Clean_touches_only_modules_witness:
  "fst (Clean_manifest clean_manifest_ex ''dest'' clean_world_ex) = None
   \<and> fst (snd (Clean_manifest clean_manifest_ex ''dest'' clean_world_ex)) = clean_manifest_ex
   \<and> trace (snd (snd (Clean_manifest clean_manifest_ex ''dest'' clean_world_ex)))
       = [Remove ''dest/m.yaml'', Remove ''dest/gone.yaml'']
   \<and> disk (snd (snd (Clean_manifest clean_manifest_ex ''dest'' clean_world_ex))) ''dest/a.txt''
       = Some (File ''x'')
   \<and> disk (snd (snd (Clean_manifest clean_manifest_ex ''dest'' clean_world_ex))) ''dest/m.yaml''
       = None"
  using Clean_touches_only_modules [of clean_manifest_ex "''dest''" clean_world_ex
      "fst (Clean_manifest clean_manifest_ex ''dest'' clean_world_ex)"
      "fst (snd (Clean_manifest clean_manifest_ex ''dest'' clean_world_ex))"
      "snd (snd (Clean_manifest clean_manifest_ex ''dest'' clean_world_ex))"]
  by (simp add: clean_manifest_ex_def clean_world_ex_def new_Manifest_def Join_dest_ex)

subsection \<open>Append and CreateManifest\<close>

lemma aggregates_new: "aggregates_ok (new_Manifest\<lparr>rootDir := d\<rparr>)"
  by (simp add: aggregates_ok_def new_Manifest_def)

lemma aggregates_add_entry:
  "aggregates_ok m \<Longrightarrow> aggregates_ok (add_entry E fs p info r c m)"
  by (simp add: aggregates_ok_def add_entry_def Let_def)

lemma aggregates_AddGlobalImportPath:
  "aggregates_ok (AddGlobalImportPath p m) = aggregates_ok m"
  by (simp add: aggregates_ok_def AddGlobalImportPath_def)

lemma aggregates_Append:
  "aggregates_ok m \<Longrightarrow> Append E fs p fi m = (err, m') \<Longrightarrow> aggregates_ok m'"
  by (auto simp: Append_def Let_def aggregates_add_entry aggregates_AddGlobalImportPath
      split: sum.splits option.splits if_splits fsobj.splits)

lemma aggregates_Walk_Append:
  "aggregates_ok m \<Longrightarrow> Walk_Append E fs vs m = (err, m') \<Longrightarrow> aggregates_ok m'"
proof (induction vs arbitrary: m)
  case Nil
  then show ?case by simp
next
  case (Cons v vs)
  obtain p info where v: "v = (p, info)" by (cases v)
  obtain e1 m1 where a: "Append E fs p (Some info) m = (e1, m1)"
    by (cases "Append E fs p (Some info) m")
  have ok1: "aggregates_ok m1" using aggregates_Append [OF Cons.prems(1) a] .
  show ?case
  proof (cases e1)
    case None
    with Cons.prems(2) v a have "Walk_Append E fs vs m1 = (err, m')" by simp
    then show ?thesis using Cons.IH ok1 by blast
  next
    case (Some e)
    with Cons.prems(2) v a have "m' = m1" by simp
    then show ?thesis using ok1 by simp
  qed
qed

lemma aggregates_CreateManifest:
  assumes c: "CreateManifest E srcdir root now = Inr m"
  shows "aggregates_ok m"
proof -
  from c obtain t where t: "root = Some t"
    by (cases root) (simp_all add: CreateManifest_def)
  obtain e1 m1 where
    wa: "Walk_Append E (disk_of srcdir t) (walk srcdir t) (new_Manifest\<lparr>rootDir := srcdir\<rparr>)
           = (e1, m1)"
    by (cases "Walk_Append E (disk_of srcdir t) (walk srcdir t) (new_Manifest\<lparr>rootDir := srcdir\<rparr>)")
  have ok1: "aggregates_ok m1" using aggregates_Walk_Append [OF aggregates_new wa] .
  from c t wa have "e1 = None" by (cases e1) (simp_all add: CreateManifest_def)
  with c t wa have "Assets m = Assets m1" "Modules m = Modules m1"
    "FileCount m = FileCount m1" "TotalSize m = TotalSize m1"
    by (auto simp: CreateManifest_def)
  with ok1 show ?thesis by (simp add: aggregates_ok_def)
qed

lemma sint_of_nat_small: "n < 2 ^ 63 \<Longrightarrow> sint (of_nat n :: 64 word) = int n"
  by (simp add: signed_of_nat signed_take_bit_int_eq_self)

lemma scenario_paths:
  "Join ''app'' ''a.txt'' = ''app/a.txt''"
  "Join ''app'' ''mods'' = ''app/mods''"
  "Join ''app/mods'' ''module.yaml'' = ''app/mods/module.yaml''"
  "Base ''app/a.txt'' = ''a.txt''"
  "Base ''app/mods/module.yaml'' = ''module.yaml''"
  "Base ''a.txt'' = ''a.txt''"
  "Base ''mods/module.yaml'' = ''module.yaml''"
  "Dir ''app/mods/module.yaml'' = ''app/mods''"
  "Rel ''app'' ''app/a.txt'' = Some ''a.txt''"
  "Rel ''app'' ''app/mods/module.yaml'' = Some ''mods/module.yaml''"
  "Rel ''app'' ''app/mods'' = Some ''mods''"
  by code_simp+

text \<open>
  C1. On the scenario of the spec the build succeeds and \<open>GlobalImports\<close> is
  \<open>[''mods'']\<close>, but the module spec file is appended as an entry like any other file, so
  that the manifest counts two files: in \<^verbatim>\<open>Append\<close> the case of the module spec file
  leaves the switch without consulting \<^verbatim>\<open>ShouldAppend\<close>, which does say that a file of
  that name is not to be appended.
\<close>

theorem scenario_appends_module_spec:
  "\<exists>m. CreateManifest (scenario_env h isMod) ''app'' (Some scenario_tree) now = Inr m
       \<and> FileCount m = 2
       \<and> length (Assets m) + length (Modules m) = 2
       \<and> GlobalImports m = [''mods'']
       \<and> ''a.txt'' \<in> Name ` set (Assets m @ Modules m)
       \<and> ''mods/module.yaml'' \<in> Name ` set (Assets m @ Modules m)
       \<and> \<not> ShouldAppend (scenario_env h isMod) m ''app/mods/module.yaml''"
proof -
  let ?fs = "disk_of ''app'' scenario_tree"
  show ?thesis
  proof (cases "isMod ?fs ''app/a.txt''")
    case a: True
    show ?thesis
    proof (cases "isMod ?fs ''app/mods/module.yaml''")
      case True
      with a show ?thesis
        by (simp add: CreateManifest_def scenario_env_def scenario_tree_def walk_def disk_of_def
            Lstat_info_def Append_def ChecksumFile_def ShouldAppend_def rel_def add_entry_def
            AddGlobalImportPath_def new_Manifest_def scenario_paths Let_def)
    next
      case False
      with a show ?thesis
        by (simp add: CreateManifest_def scenario_env_def scenario_tree_def walk_def disk_of_def
            Lstat_info_def Append_def ChecksumFile_def ShouldAppend_def rel_def add_entry_def
            AddGlobalImportPath_def new_Manifest_def scenario_paths Let_def)
    qed
  next
    case a: False
    show ?thesis
    proof (cases "isMod ?fs ''app/mods/module.yaml''")
      case True
      with a show ?thesis
        by (simp add: CreateManifest_def scenario_env_def scenario_tree_def walk_def disk_of_def
            Lstat_info_def Append_def ChecksumFile_def ShouldAppend_def rel_def add_entry_def
            AddGlobalImportPath_def new_Manifest_def scenario_paths Let_def)
    next
      case False
      with a show ?thesis
        by (simp add: CreateManifest_def scenario_env_def scenario_tree_def walk_def disk_of_def
            Lstat_info_def Append_def ChecksumFile_def ShouldAppend_def rel_def add_entry_def
            AddGlobalImportPath_def new_Manifest_def scenario_paths Let_def)
    qed
  qed
qed
text \<open>
  C2. The aggregates are right in a manifest that has just been created, every
  \<^verbatim>\<open>Append\<close> keeps them right (whether it appends an entry, skips the file or fails), and
  so they are right in the manifest a completed build returns. With fewer than \<open>2^63\<close>
  entries the signed value of \<open>FileCount\<close> is their number.
\<close>

theorem aggregates_hold:
  "aggregates_ok (new_Manifest\<lparr>rootDir := srcdir\<rparr>)
   \<and> (aggregates_ok m \<and> Append E fs p fi m = (err, m') \<longrightarrow> aggregates_ok m')
   \<and> (CreateManifest E srcdir root now = Inr mb \<longrightarrow> aggregates_ok mb)
   \<and> (aggregates_ok m \<and> length (Files m) < 2 ^ 63
        \<longrightarrow> sint (FileCount m) = int (length (Files m)))"
proof (intro conjI impI)
  show "aggregates_ok (new_Manifest\<lparr>rootDir := srcdir\<rparr>)"
    by (rule aggregates_new)
next
  assume "aggregates_ok m \<and> Append E fs p fi m = (err, m')"
  then show "aggregates_ok m'"
    using aggregates_Append by blast
next
  assume "CreateManifest E srcdir root now = Inr mb"
  then show "aggregates_ok mb"
    by (rule aggregates_CreateManifest)
next
  assume a: "aggregates_ok m \<and> length (Files m) < 2 ^ 63"
  then have "FileCount m = of_nat (length (Files m))"
    by (simp add: aggregates_ok_def Files_def)
  moreover have "sint (of_nat (length (Files m)) :: 64 word) = int (length (Files m))"
    using a by (intro sint_of_nat_small) simp
  ultimately show "sint (FileCount m) = int (length (Files m))"
    by (simp only:)
qed

text \<open>
  An input for it: \<^verbatim>\<open>a.txt\<close> of the scenario appended to the new manifest, and the build of
  the whole scenario.
\<close>

theorem aggregates_hold_witness:
  "aggregates_ok (new_Manifest\<lparr>rootDir := ''app''\<rparr>)
   \<and> fst (Append (scenario_env (\<lambda>b. b) (\<lambda>fs p. False)) (disk_of ''app'' scenario_tree)
            ''app/a.txt'' None (new_Manifest\<lparr>rootDir := ''app''\<rparr>)) = None
   \<and> FileCount (snd (Append (scenario_env (\<lambda>b. b) (\<lambda>fs p. False))
            (disk_of ''app'' scenario_tree) ''app/a.txt'' None
            (new_Manifest\<lparr>rootDir := ''app''\<rparr>))) = 1
   \<and> aggregates_ok (snd (Append (scenario_env (\<lambda>b. b) (\<lambda>fs p. False))
            (disk_of ''app'' scenario_tree) ''app/a.txt'' None
            (new_Manifest\<lparr>rootDir := ''app''\<rparr>)))
   \<and> (\<exists>mb. CreateManifest (scenario_env (\<lambda>b. b) (\<lambda>fs p. False)) ''app''
              (Some scenario_tree) 0 = Inr mb \<and> aggregates_ok mb)
   \<and> sint (FileCount (new_Manifest\<lparr>rootDir := ''app''\<rparr>)) = 0"
  using aggregates_hold [of "''app''" "new_Manifest\<lparr>rootDir := ''app''\<rparr>"
      "scenario_env (\<lambda>b. b) (\<lambda>fs p. False)" "disk_of ''app'' scenario_tree" "''app/a.txt''" None
      "fst (Append (scenario_env (\<lambda>b. b) (\<lambda>fs p. False)) (disk_of ''app'' scenario_tree)
            ''app/a.txt'' None (new_Manifest\<lparr>rootDir := ''app''\<rparr>))"
      "snd (Append (scenario_env (\<lambda>b. b) (\<lambda>fs p. False)) (disk_of ''app'' scenario_tree)
            ''app/a.txt'' None (new_Manifest\<lparr>rootDir := ''app''\<rparr>))"
      "Some scenario_tree" 0
      "projr (CreateManifest (scenario_env (\<lambda>b. b) (\<lambda>fs p. False)) ''app''
              (Some scenario_tree) 0)"]
  by (simp add: CreateManifest_def scenario_env_def scenario_tree_def walk_def disk_of_def
      Lstat_info_def Append_def ChecksumFile_def ShouldAppend_def rel_def add_entry_def
      AddGlobalImportPath_def new_Manifest_def scenario_paths Let_def os_Stat_def
      aggregates_ok_def Files_def)

subsection \<open>Fetch\<close>

lemma set_Files_Files: "set_Files m (Files m) = m"
  by (simp add: set_Files_def Files_def)




lemma os_Remove_snd:
  "snd (os_Remove p w) = w\<lparr>disk := (disk w)(p := None), trace := trace w @ [Remove p]\<rparr>"
proof (cases "disk w p")
  case None
  then have "(disk w)(p := None) = disk w"
    by (simp add: fun_upd_idem)
  with None show ?thesis
    by (simp add: os_Remove_def Let_def)
next
  case (Some ob)
  then show ?thesis
    by (simp add: os_Remove_def Let_def)
qed


lemma validate_None_file:
  "validate E fs root f = None \<Longrightarrow> \<exists>b. fs (Join root (Name f)) = Some (File b)"
  by (auto simp: validate_def FileExists_def Let_def split: option.splits fsobj.splits if_splits)

lemma file_at_upd: "file_at (fs(p := v)) q = (if q = p then file_at (fs(p := v)) p else file_at fs q)"
  by (simp add: file_at_def)





lemma toFetch_all_valid:
  "\<forall>f \<in> set fl. validate E fs destdir f = None \<Longrightarrow> toFetch E fs destdir fl = []"
  by (auto simp: toFetch_def filter_empty_conv)

lemma validate_pass_find:
  "validate_pass E destdir fl w =
     (case find (offending E (disk w) destdir) fl of
        None \<Rightarrow> (None, w)
      | Some f \<Rightarrow>
          (Some (InvalidFile (Join destdir (Name f)) (the (validate E (disk w) destdir f))),
           snd (os_Remove (Join destdir (Name f)) w)))"
  by (induction fl) (auto simp: offending_def)

lemma validate_pass_ok:
  "\<forall>f \<in> set fl. skipValidate f \<or> validate E (disk w) destdir f = None
     \<Longrightarrow> validate_pass E destdir fl w = (None, w)"
  by (induction fl) auto

lemma Fetch_valid_noop:
  assumes "\<forall>f \<in> set (Files m). validate E (disk w) destdir f = None"
  shows "Fetch E m srcroot destdir w = (None, m, w)"
  using assms
  by (simp add: Fetch_def toFetch_all_valid validate_pass_ok set_Files_Files)









text \<open>
  C3. When every entry validates in the destination, \<^verbatim>\<open>Fetch\<close> returns nil and leaves the
  manifest and the world as they were: nothing is to be fetched, so it makes no call to
  the retrieval backend and writes nothing. A second run, started from what the first
  one returned, does the same.
\<close>

theorem Fetch_idempotent:
  assumes "\<forall>f \<in> set (Files m). validate E (disk w) destdir f = None"
  shows "toFetch E (disk w) destdir (Files m) = []
    \<and> Fetch E m srcroot destdir w = (None, m, w)
    \<and> Fetch E (fst (snd (Fetch E m srcroot destdir w))) srcroot destdir
         (snd (snd (Fetch E m srcroot destdir w))) = (None, m, w)"
  using assms by (simp add: Fetch_valid_noop toFetch_all_valid)

lemma fetch_paths:
  "Join ''dest'' ''pkg.zip'' = ''dest/pkg.zip''"
  "Join ''dest'' ''lib/x.txt'' = ''dest/lib/x.txt''"
  "Join ''src'' ''pkg.zip'' = ''src/pkg.zip''"
  "Join ''src'' ''a.txt'' = ''src/a.txt''"
  "parent_dirs ''dest/pkg.zip'' = [''dest'']"
  "parent_dirs ''dest/a.txt'' = [''dest'']"
  "parent_dirs ''dest/lib/x.txt'' = [''dest'', ''dest/lib'']"
  by code_simp+

lemmas fetch_eval =
  Fetch_def toFetch_def Files_def set_Files_def validate_def FileExists_def ChecksumFile_def
  ManifestFile_fetch_def WriteFile_to_def extract_archive_def os_Remove_def
  put_file_def make_dirs_def file_at_def extracted_paths_def
  fetch_env_def scenario_env_def pkg_manifest_def txt_manifest_def pkg_entry_def txt_entry_def
  dest_with_txt_def dest_with_pkg_def dest_empty_def
  overwriting_env_def txt_source_env_def pkg_source_env_def broken_zip_env_def
  new_Manifest_def Join_dest_ex fetch_paths Let_def
  upt_rec [of 0] upt_rec [of 1] upt_rec [of 2] nth_Cons' less_Suc_eq numeral_2_eq_2

text \<open>
  An input for it: the destination has \<^verbatim>\<open>pkg.zip\<close> and lacks \<^verbatim>\<open>a.txt\<close>. A first run
  retrieves \<^verbatim>\<open>a.txt\<close>; in the destination it leaves every entry validates, and the run
  after it changes nothing.
\<close>

theorem Fetch_idempotent_witness:
  "fst (Fetch txt_source_env pkg_manifest ''src'' ''dest'' dest_with_pkg) = None
   \<and> trace (snd (snd (Fetch txt_source_env pkg_manifest ''src'' ''dest'' dest_with_pkg)))
       = [Retrieve ''a.txt'', Write ''dest/a.txt'']
   \<and> validate txt_source_env
        (disk (snd (snd (Fetch txt_source_env pkg_manifest ''src'' ''dest'' dest_with_pkg))))
        ''dest'' txt_entry = None
   \<and> Fetch txt_source_env pkg_manifest ''src'' ''dest''
        (snd (snd (Fetch txt_source_env pkg_manifest ''src'' ''dest'' dest_with_pkg)))
       = (None, pkg_manifest,
          snd (snd (Fetch txt_source_env pkg_manifest ''src'' ''dest'' dest_with_pkg)))"
  using Fetch_idempotent [of pkg_manifest txt_source_env
      "snd (snd (Fetch txt_source_env pkg_manifest ''src'' ''dest'' dest_with_pkg))"
      "''dest''" "''src''"]
  by (simp add: fetch_eval)

lemma find_offending_first:
  assumes "find P fl = Some f"
  shows "\<exists>i < length fl. fl ! i = f \<and> P f \<and> (\<forall>j < i. \<not> P (fl ! j))"
  using assms by (auto simp: find_Some_iff)

text \<open>
  C5. Let the fetches have gone through, leaving the entries \<open>fl\<close> and the world \<open>w1\<close>.
  If some entry that is not marked \<^verbatim>\<open>skipValidate\<close> does not validate in the destination,
  then \<^verbatim>\<open>Fetch\<close> returns an error: the one for the first such entry in the order of
  \<^verbatim>\<open>Files()\<close>, naming its destination path and carrying what \<^verbatim>\<open>validate\<close> said; the file at
  that path has been removed (one \<^verbatim>\<open>os.Remove\<close>, the last call of the run) and nothing else
  has changed.
\<close>

theorem Fetch_removes_first_offender:
  assumes "fetch_loop E srcroot destdir (toFetch E (disk w) destdir (Files m)) (Files m) w
             = (None, fl, w1)"
    and "f' \<in> set fl" and "\<not> skipValidate f'" and "validate E (disk w1) destdir f' \<noteq> None"
  shows "\<exists>i err. i < length fl
           \<and> \<not> skipValidate (fl ! i) \<and> validate E (disk w1) destdir (fl ! i) = Some err
           \<and> (\<forall>j < i. skipValidate (fl ! j) \<or> validate E (disk w1) destdir (fl ! j) = None)
           \<and> Fetch E m srcroot destdir w =
               (Some (InvalidFile (Join destdir (Name (fl ! i))) err), set_Files m fl,
                w1\<lparr>disk := (disk w1)(Join destdir (Name (fl ! i)) := None),
                   trace := trace w1 @ [Remove (Join destdir (Name (fl ! i)))]\<rparr>)"
proof -
  from assms(2-4) have "offending E (disk w1) destdir f'"
    by (simp add: offending_def)
  with assms(2) obtain f where f: "find (offending E (disk w1) destdir) fl = Some f"
    by (cases "find (offending E (disk w1) destdir) fl") (auto simp: find_None_iff)
  from find_offending_first [OF f] obtain i where
    i: "i < length fl" "fl ! i = f" "offending E (disk w1) destdir f"
       "\<forall>j < i. \<not> offending E (disk w1) destdir (fl ! j)"
    by blast
  from i(3) obtain err where err: "validate E (disk w1) destdir f = Some err"
    by (auto simp: offending_def)
  have "Fetch E m srcroot destdir w =
          (Some (InvalidFile (Join destdir (Name f)) err), set_Files m fl,
           snd (os_Remove (Join destdir (Name f)) w1))"
    using assms(1) f err by (simp add: Fetch_def validate_pass_find)
  with i err show ?thesis
    by (auto simp: offending_def os_Remove_snd)
qed

text \<open>
  An input for it: the destination is empty and the backend returns other bytes for
  \<^verbatim>\<open>a.txt\<close> than the manifest records. The file is written, with the directory above it,
  fails the last loop and is removed.
\<close>

theorem Fetch_removes_first_offender_witness:
  "fst (fetch_loop (fetch_env (\<lambda>u. Some ''tampered'') (\<lambda>b. None)) ''src'' ''dest''
       (toFetch (fetch_env (\<lambda>u. Some ''tampered'') (\<lambda>b. None)) (disk dest_empty) ''dest''
          (Files txt_manifest)) (Files txt_manifest) dest_empty) = None
   \<and> fst (Fetch (fetch_env (\<lambda>u. Some ''tampered'') (\<lambda>b. None)) txt_manifest ''src'' ''dest''
          dest_empty) = Some (InvalidFile ''dest/a.txt'' InvalidLocalFile)
   \<and> trace (snd (snd (Fetch (fetch_env (\<lambda>u. Some ''tampered'') (\<lambda>b. None)) txt_manifest
          ''src'' ''dest'' dest_empty)))
       = [Retrieve ''a.txt'', Write ''dest/a.txt'', Remove ''dest/a.txt'']
   \<and> disk (snd (snd (Fetch (fetch_env (\<lambda>u. Some ''tampered'') (\<lambda>b. None)) txt_manifest
          ''src'' ''dest'' dest_empty))) ''dest/a.txt'' = None
   \<and> disk (snd (snd (Fetch (fetch_env (\<lambda>u. Some ''tampered'') (\<lambda>b. None)) txt_manifest
          ''src'' ''dest'' dest_empty))) ''dest'' = Some Directory"
  using Fetch_removes_first_offender [of "fetch_env (\<lambda>u. Some ''tampered'') (\<lambda>b. None)"
      "''src''" "''dest''" dest_empty txt_manifest
      "fst (snd (fetch_loop (fetch_env (\<lambda>u. Some ''tampered'') (\<lambda>b. None)) ''src'' ''dest''
         (toFetch (fetch_env (\<lambda>u. Some ''tampered'') (\<lambda>b. None)) (disk dest_empty) ''dest''
            (Files txt_manifest)) (Files txt_manifest) dest_empty))"
      "snd (snd (fetch_loop (fetch_env (\<lambda>u. Some ''tampered'') (\<lambda>b. None)) ''src'' ''dest''
         (toFetch (fetch_env (\<lambda>u. Some ''tampered'') (\<lambda>b. None)) (disk dest_empty) ''dest''
            (Files txt_manifest)) (Files txt_manifest) dest_empty))"
      txt_entry]
  by (simp add: fetch_eval)








subsection \<open>Fetch: archives\<close>










end
